theory Spec2Isabelle
  imports Main "HOL-Library.Word" "HOL-Library.Char_ord" "HOL-Library.List_Lexorder"
begin

section \<open>Go values the embedding needs\<close>

text \<open>
  The Go sources are embedded function by function. A Go function that can panic returns an
  \<open>outcome\<close>: either the value it returns or the value it panicked with. Go's \<open>error\<close>
  interface is the datatype \<open>error\<close> below; a nil error is \<open>None\<close> of \<open>error option\<close>.
  The zero value of a type parameter \<open>T\<close> (Go's \<open>var zero T\<close>) is passed explicitly as an
  argument named \<open>zero\<close>, since HOL has no zero value per type. Go's \<open>int\<close> is \<open>int\<close>:
  the embedded code compares and prints integers and does no arithmetic on them.
\<close>

subsection \<open>Formatting: \<open>%d\<close> and \<open>strings.Join\<close>\<close>

fun nat_digits :: "nat \<Rightarrow> string" where
  "nat_digits n =
     (if n < 10 then [''0123456789'' ! n]
      else nat_digits (n div 10) @ [''0123456789'' ! (n mod 10)])"

declare nat_digits.simps [simp del]

definition itoa :: "int \<Rightarrow> string" where
  "itoa i = (if i < 0 then ''-'' @ nat_digits (nat (- i)) else nat_digits (nat i))"

fun strings_Join :: "string list \<Rightarrow> string \<Rightarrow> string" where
  "strings_Join [] sep = []"
| "strings_Join [x] sep = x"
| "strings_Join (x # y # ys) sep = x @ sep @ strings_Join (y # ys) sep"

subsection \<open>core.APIError (package core, unnamed/part_001) and the error values of packages errors and context\<close>

text \<open>
  \<open>Fields\<close> is a Go map; it is kept as the list of its entries in the order the runtime
  iterates them (Go leaves that order unspecified), keys distinct.
\<close>

record APIError =
  Code :: int
  Message :: string
  Detail :: string
  Fields :: "(string \<times> string) list"

definition APIError_Error :: "APIError \<Rightarrow> string" where
  "APIError_Error e =
     (let msg = ''API Error '' @ itoa (Code e) @ '': '' @ Message e;
          msg = (if Detail e \<noteq> [] then msg @ '' - '' @ Detail e else msg);
          msg = (if length (Fields e) > 0
                 then msg @ '' [fields: ''
                        @ strings_Join (map (\<lambda>(k, v). k @ ''='' @ v) (Fields e)) '', '' @ '']''
                 else msg)
      in msg)"

text \<open>\<open>NewAPIError(code, message, detail...)\<close>: the variadic \<open>detail\<close> is a list.\<close>

definition NewAPIError :: "int \<Rightarrow> string \<Rightarrow> string list \<Rightarrow> APIError" where
  "NewAPIError code message detail =
     (let err = \<lparr>Code = code, Message = message, Detail = [], Fields = []\<rparr>
      in if length detail > 0 then err\<lparr>Detail := hd detail\<rparr> else err)"

datatype error =
    Canceled
  | DeadlineExceeded
  | APIErrorPtr APIError
  | ErrorString string
  | WrapError string error
  | JoinError string "error list"

text \<open>
  \<open>Canceled\<close> and \<open>DeadlineExceeded\<close> are the two sentinel values of package context;
  \<open>APIErrorPtr e\<close> is a non-nil \<open>*core.APIError\<close>; \<open>ErrorString s\<close> is what \<open>errors.New\<close> and
  a \<open>fmt.Errorf\<close> without \<open>%w\<close> build; \<open>WrapError s e\<close> is a \<open>fmt.Errorf\<close> with one \<open>%w\<close>
  (message \<open>s\<close>, \<open>Unwrap() = e\<close>); \<open>JoinError s es\<close> is an error with \<open>Unwrap() []error = es\<close>
  (\<open>errors.Join\<close>, or a \<open>fmt.Errorf\<close> with several \<open>%w\<close>).
\<close>

fun Error :: "error \<Rightarrow> string" where
  "Error Canceled = ''context canceled''"
| "Error DeadlineExceeded = ''context deadline exceeded''"
| "Error (APIErrorPtr e) = APIError_Error e"
| "Error (ErrorString s) = s"
| "Error (WrapError s e) = s"
| "Error (JoinError s es) = s"

text \<open>
  \<open>errors.Is(err, target)\<close> for a non-nil \<open>err\<close>: compare, then follow \<open>Unwrap\<close>; an error
  with several wrapped errors is searched depth first. None of the error types above has
  an \<open>Is\<close> method.
\<close>

fun errors_Is :: "error \<Rightarrow> error \<Rightarrow> bool"
  and errors_Is_any :: "error list \<Rightarrow> error \<Rightarrow> bool" where
  "errors_Is (WrapError s e) target = (if WrapError s e = target then True else errors_Is e target)"
| "errors_Is (JoinError s es) target =
     (if JoinError s es = target then True else errors_Is_any es target)"
| "errors_Is Canceled target = (Canceled = target)"
| "errors_Is DeadlineExceeded target = (DeadlineExceeded = target)"
| "errors_Is (APIErrorPtr a) target = (APIErrorPtr a = target)"
| "errors_Is (ErrorString m) target = (ErrorString m = target)"
| "errors_Is_any [] target = False"
| "errors_Is_any (e # es) target = (if errors_Is e target then True else errors_Is_any es target)"

datatype panic_value = PanicString string | PanicError error

datatype 'a outcome = Returns 'a | Panics panic_value

subsection \<open>What a handler can touch: the response writer and the loggers\<close>

text \<open>
  \<open>http.ResponseWriter\<close> is an interface of the standard library. The embedding records
  the calls made on it, in order; what a particular writer does with them is outside the
  repository. \<open>Encode j\<close> is \<open>json.NewEncoder(w).Encode(data)\<close> for data that marshals to
  the JSON value \<open>j\<close>, where \<open>JString s\<close> is the JSON string that encoding/json writes
  for the Go string \<open>s\<close> (it escapes \<open>s\<close> and replaces bytes that are not valid UTF-8).
  In the same way a logger is the list of the calls made on it:
  \<open>slog_New n\<close> is a \<open>*slog.Logger\<close> (taken non-nil), \<open>DefaultLogger\<close> the process-wide
  logger behind \<open>slog.Error\<close>, \<open>slog.Warn\<close> and \<open>slog.Info\<close>.
\<close>

datatype json = JNumber int | JString string | JObject "(string \<times> json) list"

datatype rw_call = Header_Set string string | WriteHeader int | Encode json

datatype slog_Logger = slog_New nat | DefaultLogger

datatype slog_Level = LevelDebug | LevelInfo | LevelWarn | LevelError

datatype slog_value =
  AString string | ABool bool | AInt int | AFields "(string \<times> string) list"

record log_record =
  log_logger :: slog_Logger
  log_level :: slog_Level
  log_msg :: string
  log_args :: "(string \<times> slog_value) list"

record world =
  rw :: "rw_call list"
  logs :: "log_record list"

definition slog_log ::
  "slog_Logger \<Rightarrow> slog_Level \<Rightarrow> string \<Rightarrow> (string \<times> slog_value) list \<Rightarrow> world \<Rightarrow> world" where
  "slog_log l lvl msg args w =
     w\<lparr>logs := logs w @ [\<lparr>log_logger = l, log_level = lvl, log_msg = msg, log_args = args\<rparr>]\<rparr>"

definition rw_do :: "rw_call \<Rightarrow> world \<Rightarrow> world" where
  "rw_do c w = w\<lparr>rw := rw w @ [c]\<rparr>"

subsection \<open>context.Context and http.Request\<close>

text \<open>
  A context is the background context or one derived from a parent: by \<open>WithCancel\<close>
  (the flag says whether its cancel function has been called), by \<open>WithDeadline\<close> (the
  flag says whether its deadline has passed) or by \<open>WithValue\<close>. The embedded code only
  passes a context on; it never asks one for its error.
\<close>

datatype Context =
    Background
  | WithCancel Context bool
  | WithDeadline Context bool
  | WithValue Context string string

text \<open>
  The fields of \<open>*http.Request\<close> that the embedded code reads. \<open>Request_ctx\<close> is the
  unexported field \<open>ctx\<close>, nil for a request built without a context; \<open>Header_Get\<close> is
  \<open>r.Header.Get\<close> (the empty string for an absent header). \<open>Request_Context\<close> is
  \<open>r.Context()\<close> of net/http: the request's context, or the background context if the
  field is nil.
\<close>

record Request =
  Request_Method :: string
  URL_Path :: string
  URL_RawQuery :: string
  RemoteAddr :: string
  Header_Get :: "string \<Rightarrow> string"
  Request_ctx :: "Context option"

definition Request_Context :: "Request \<Rightarrow> Context" where
  "Request_Context r = (case Request_ctx r of Some c \<Rightarrow> c | None \<Rightarrow> Background)"

subsection \<open>core/response.go\<close>

text \<open>
  \<open>APIError_json\<close> is how encoding/json marshals the struct under its field tags:
  \<open>detail\<close> and \<open>fields\<close> are \<open>omitempty\<close>, and a map is written with its keys sorted.
\<close>

definition APIError_json :: "APIError \<Rightarrow> json" where
  "APIError_json e =
     JObject ([(''code'', JNumber (Code e)), (''message'', JString (Message e))]
       @ (if Detail e \<noteq> [] then [(''detail'', JString (Detail e))] else [])
       @ (if length (Fields e) > 0
          then [(''fields'', JObject (map (\<lambda>(k, v). (k, JString v)) (sort_key fst (Fields e))))]
          else []))"

text \<open>
  \<open>JSON(w, status, data)\<close>. Its result, the error of \<open>Encode\<close>, depends on the writer
  alone and every caller embedded here discards it, so the model returns the world only.
\<close>

definition JSON :: "world \<Rightarrow> int \<Rightarrow> json \<Rightarrow> world" where
  "JSON w status data =
     rw_do (Encode data)
       (rw_do (WriteHeader status)
         (rw_do (Header_Set ''Content-Type'' ''application/json'') w))"

definition extractRequestContext :: "Request \<Rightarrow> (string \<times> slog_value) list" where
  "extractRequestContext r =
     (let logFields = [(''method'', AString (Request_Method r)),
                       (''path'', AString (URL_Path r)),
                       (''remote_addr'', AString (RemoteAddr r)),
                       (''user_agent'', AString (Header_Get r ''User-Agent''))];
          logFields = (if URL_RawQuery r \<noteq> []
                       then logFields @ [(''query'', AString (URL_RawQuery r))] else logFields);
          requestID = Header_Get r ''X-Request-ID'';
          logFields = (if requestID \<noteq> []
                       then logFields @ [(''request_id'', AString requestID)] else logFields)
      in logFields)"

definition WriteAPIError :: "world \<Rightarrow> Request \<Rightarrow> APIError \<Rightarrow> world" where
  "WriteAPIError w r apiErr =
     (let logFields = [(''status'', AInt (Code apiErr)), (''message'', AString (Message apiErr))];
          logFields = (if Detail apiErr \<noteq> []
                       then logFields @ [(''detail'', AString (Detail apiErr))] else logFields);
          logFields = (if length (Fields apiErr) > 0
                       then logFields @ [(''validation_field_count'', AInt (int (length (Fields apiErr))))]
                                      @ [(''validation_fields'', AFields (Fields apiErr))]
                       else logFields);
          logFields = logFields @ extractRequestContext r;
          w = (if Code apiErr \<ge> 500
               then slog_log DefaultLogger LevelError ''API error response'' logFields w
               else if Code apiErr \<ge> 400
               then slog_log DefaultLogger LevelWarn ''API error response'' logFields w
               else slog_log DefaultLogger LevelInfo ''API error response'' logFields w);
          response = JObject [(''error'', APIError_json apiErr)]
      in JSON w (Code apiErr) response)"

definition core_Error :: "world \<Rightarrow> Request \<Rightarrow> int \<Rightarrow> string \<Rightarrow> world" where
  "core_Error w r status message =
     (let apiErr = NewAPIError status message [] in WriteAPIError w r apiErr)"

section \<open>handler.Nullable (handler/nullable.go)\<close>

text \<open>
  The revision embedded is the one of handler/nullable.go, whose \<open>Value\<close> panics on an
  absent value. (The sources also hold a revision whose \<open>Value\<close> returns an error
  instead; the other accessors are the same in both.)
\<close>

record 'a Nullable =
  value' :: 'a
  hasValue :: bool

definition NewNullable :: "'a \<Rightarrow> 'a Nullable" where
  "NewNullable v = \<lparr>value' = v, hasValue = True\<rparr>"

text \<open>\<open>Nil[T]()\<close>: the field \<open>value\<close> is left at the zero value of \<open>T\<close>.\<close>

definition Nil_Nullable :: "'a \<Rightarrow> 'a Nullable" where
  "Nil_Nullable zero = \<lparr>value' = zero, hasValue = False\<rparr>"

definition HasValue :: "'a Nullable \<Rightarrow> bool" where
  "HasValue n = hasValue n"

definition Value :: "'a Nullable \<Rightarrow> 'a outcome" where
  "Value n =
     (if \<not> hasValue n
      then Panics (PanicString ''japi-core: attempted to access Nullable value when HasValue is false'')
      else Returns (value' n))"

definition TryValue :: "'a Nullable \<Rightarrow> 'a \<times> bool" where
  "TryValue n = (value' n, hasValue n)"

definition ValueOrDefault :: "'a \<Rightarrow> 'a Nullable \<Rightarrow> 'a" where
  "ValueOrDefault zero n = (if hasValue n then value' n else zero)"

definition ValueOr :: "'a Nullable \<Rightarrow> 'a \<Rightarrow> 'a" where
  "ValueOr n defaultValue = (if hasValue n then value' n else defaultValue)"

section \<open>handler.HandlerContext, Handler, Middleware (package handler, unnamed/part_005)\<close>

text \<open>
  \<open>uuid.UUID\<close> is \<open>[16]byte\<close>; its zero value is sixteen zero bytes. A \<open>*sql.DB\<close> is a
  nullable handle on the pool opened for a data source name. The field \<open>Context\<close> is an
  interface value: \<open>None\<close> is the nil interface, the handle left unset.
\<close>

type_synonym UUID = "8 word list"

definition UUID_zero :: UUID where
  "UUID_zero = replicate 16 0"

datatype sql_DB = Pool string

record ('p, 'b) HandlerContext =
  Context :: "Context option"
  DB :: "sql_DB option"
  Logger :: slog_Logger
  Params :: "'p Nullable"
  Body :: "'b Nullable"
  BodyRaw :: "8 word list Nullable"
  Headers :: "(string \<times> string list) list Nullable"
  UserUUID :: "UUID Nullable"
  CompanyUUID :: "UUID Nullable"

text \<open>
  A handler receives the context, the response writer and the request. It may write to the
  writer and log, so it takes the world and returns the new one, together with either the
  pair it returns (response data and error) or the value it panics with.
\<close>

type_synonym ('p, 'b, 'r) Handler =
  "('p, 'b) HandlerContext \<Rightarrow> world \<Rightarrow> Request \<Rightarrow> world \<times> ('r \<times> error option) outcome"

type_synonym http_HandlerFunc = "world \<Rightarrow> Request \<Rightarrow> world \<times> unit outcome"

text \<open>
  A middleware is a Go function from handlers to handlers. \<open>getMiddlewareName\<close> asks the
  runtime for the symbol name of that function (\<open>runtime.FuncForPC(...).Name()\<close>), which
  no HOL function has; so a middleware is the function together with that name,
  \<open>None\<close> when \<open>FuncForPC\<close> returns nil.
\<close>

record ('p, 'b, 'r) Middleware =
  FuncForPC_Name :: "string option"
  call :: "('p, 'b, 'r) Handler \<Rightarrow> ('p, 'b, 'r) Handler"

record RouteInfo =
  RouteInfo_Method :: string
  RouteInfo_Path :: string
  Summary :: string
  Description :: string
  Tags :: "string list"

text \<open>
  \<open>AdaptableHandler\<close> is the interface with the one method \<open>Adapt\<close>; a value of it is that
  method, which hides the three type parameters of the \<open>TypedHandler\<close> behind it.
\<close>

type_synonym AdaptableHandler = "sql_DB option \<Rightarrow> slog_Logger \<Rightarrow> http_HandlerFunc"

record PendingRoute =
  PendingRoute_Method :: string
  PendingRoute_Path :: string
  PendingRoute_Handler :: AdaptableHandler
  PendingRoute_RouteInfo :: RouteInfo
  MiddlewareNames :: "string list"

section \<open>handler.AdaptHandler (package handler, unnamed/part_005)\<close>

text \<open>
  The sources hold two revisions of \<open>AdaptHandler\<close>. The one embedded is the revision of
  unnamed/part_005, which stands with the declaration of \<open>HandlerContext\<close> above (the
  struct with the field \<open>Context\<close>) and which handler/context_test.go exercises; the
  older revision, in handler/adapter.go, predates that field and the two context errors. \<open>Params\<close>, \<open>Body\<close>, \<open>BodyRaw\<close> and \<open>Headers\<close> are
  not named in the struct literal, so they hold the zero \<open>Nullable\<close>. A handler that
  panics is not recovered: the panic leaves the adapter.
\<close>

definition AdaptHandler ::
  "'p \<Rightarrow> 'b \<Rightarrow> sql_DB option \<Rightarrow> slog_Logger \<Rightarrow> ('p, 'b, 'r) Handler \<Rightarrow> http_HandlerFunc" where
  "AdaptHandler zeroP zeroB db logger handler w r =
     (let requestCtx = Request_Context r;
          w = slog_log logger LevelDebug ''AdaptHandler creating context''
                [(''db_nil'', ABool (db = None)), (''path'', AString (URL_Path r))] w;
          ctx = \<lparr>Context = Some requestCtx,
                 DB = db,
                 Logger = logger,
                 Params = Nil_Nullable zeroP,
                 Body = Nil_Nullable zeroB,
                 BodyRaw = Nil_Nullable [],
                 Headers = Nil_Nullable [],
                 UserUUID = Nil_Nullable UUID_zero,
                 CompanyUUID = Nil_Nullable UUID_zero\<rparr>
      in case handler ctx w r of
           (w, Panics p) \<Rightarrow> (w, Panics p)
         | (w, Returns (_, None)) \<Rightarrow> (w, Returns ())
         | (w, Returns (_, Some err)) \<Rightarrow>
             if errors_Is err Canceled
             then (slog_log logger LevelInfo ''Request cancelled by client''
                     [(''path'', AString (URL_Path r))] w, Returns ())
             else if errors_Is err DeadlineExceeded
             then (let w = slog_log logger LevelError ''Request timeout''
                             [(''path'', AString (URL_Path r))] w
                   in (WriteAPIError w r (NewAPIError 504 ''Request timeout'' []), Returns ()))
             else (let w = slog_log logger LevelError ''Handler error''
                             [(''error'', AString (Error err)), (''path'', AString (URL_Path r))] w
                   in case err of
                        APIErrorPtr apiErr \<Rightarrow> (WriteAPIError w r apiErr, Returns ())
                      | _ \<Rightarrow> (core_Error w r 500 ''Internal server error'', Returns ())))"

section \<open>handler.MakeHandler and the collected routes (package handler, unnamed/part_005)\<close>

definition TypedHandler_Adapt :: "'p \<Rightarrow> 'b \<Rightarrow> ('p, 'b, 'r) Handler \<Rightarrow> AdaptableHandler" where
  "TypedHandler_Adapt zeroP zeroB handler database logger =
     AdaptHandler zeroP zeroB database logger handler"

text \<open>
  The regular expression of \<open>getMiddlewareName\<close> is a dot, an identifier and an opening
  bracket. \<open>regexp_submatch\<close> is \<open>re.FindStringSubmatch(fullName)\<close> reduced to its group 1:
  the identifier of the leftmost match, \<open>None\<close> when nothing matches. As a bracket is no
  identifier character, the regular expression matches at a dot exactly when the longest
  run of identifier characters after it starts with a letter or underscore and is
  followed by a bracket.
\<close>

definition is_ident_start :: "char \<Rightarrow> bool" where
  "is_ident_start c =
     ((CHR ''A'' \<le> c \<and> c \<le> CHR ''Z'') \<or> (CHR ''a'' \<le> c \<and> c \<le> CHR ''z'') \<or> c = CHR ''_'')"

definition is_ident_char :: "char \<Rightarrow> bool" where
  "is_ident_char c = (is_ident_start c \<or> (CHR ''0'' \<le> c \<and> c \<le> CHR ''9''))"

definition ident_before_bracket :: "string \<Rightarrow> string option" where
  "ident_before_bracket s =
     (let ident = takeWhile is_ident_char s; rest = dropWhile is_ident_char s
      in case (ident, rest) of
           (c # _, b # _) \<Rightarrow> if is_ident_start c \<and> b = CHR ''['' then Some ident else None
         | _ \<Rightarrow> None)"

fun regexp_submatch :: "string \<Rightarrow> string option" where
  "regexp_submatch [] = None"
| "regexp_submatch (c # cs) =
     (if c = CHR ''.''
      then (case ident_before_bracket cs of Some name \<Rightarrow> Some name | None \<Rightarrow> regexp_submatch cs)
      else regexp_submatch cs)"

text \<open>The last element of \<open>strings.Split(s, ".")\<close>: what follows the last dot.\<close>

definition last_part :: "string \<Rightarrow> string" where
  "last_part s = rev (takeWhile (\<lambda>c. c \<noteq> CHR ''.'') (rev s))"

definition getMiddlewareName :: "('p, 'b, 'r) Middleware \<Rightarrow> string" where
  "getMiddlewareName middleware =
     (case FuncForPC_Name middleware of
        None \<Rightarrow> ''unknown''
      | Some fullName \<Rightarrow>
          (case regexp_submatch fullName of
             Some name \<Rightarrow> name
           | None \<Rightarrow>
               (let lastName = last_part fullName;
                    lastName = (if CHR ''['' \<in> set lastName
                                then takeWhile (\<lambda>c. c \<noteq> CHR ''['') lastName else lastName)
                in if lastName \<noteq> [] \<and> lastName \<noteq> '']'' then lastName else ''unknown'')))"

text \<open>
  The loop \<open>for i := len(middleware) - 1; i >= 0; i-- { handler = middleware[i](handler) }\<close>:
  \<open>apply_from k\<close> is the loop with \<open>k\<close> iterations left, that is at \<open>i = k - 1\<close>.
\<close>

fun apply_from ::
  "nat \<Rightarrow> ('p, 'b, 'r) Middleware list \<Rightarrow> ('p, 'b, 'r) Handler \<Rightarrow> ('p, 'b, 'r) Handler" where
  "apply_from 0 middleware handler = handler"
| "apply_from (Suc i) middleware handler = apply_from i middleware (call (middleware ! i) handler)"

text \<open>
  \<open>globalRoutes\<close> is the package variable; \<open>MakeHandler\<close> takes its value and returns the
  new one beside the composed handler. The mutex around the append has no counterpart in
  a sequential embedding.
\<close>

definition MakeHandler ::
  "'p \<Rightarrow> 'b \<Rightarrow> RouteInfo \<Rightarrow> ('p, 'b, 'r) Handler \<Rightarrow> ('p, 'b, 'r) Middleware list
     \<Rightarrow> PendingRoute list \<Rightarrow> ('p, 'b, 'r) Handler \<times> PendingRoute list" where
  "MakeHandler zeroP zeroB routeInfo baseHandler middleware globalRoutes =
     (let handler = baseHandler;
          middlewareNames = map getMiddlewareName middleware;
          handler = apply_from (length middleware) middleware handler;
          globalRoutes = globalRoutes @
            [\<lparr>PendingRoute_Method = RouteInfo_Method routeInfo,
              PendingRoute_Path = RouteInfo_Path routeInfo,
              PendingRoute_Handler = TypedHandler_Adapt zeroP zeroB handler,
              PendingRoute_RouteInfo = routeInfo,
              MiddlewareNames = middlewareNames\<rparr>]
      in (handler, globalRoutes))"

definition GetCollectedRoutes :: "PendingRoute list \<Rightarrow> PendingRoute list" where
  "GetCollectedRoutes globalRoutes = globalRoutes"

section \<open>handler.Registry\<close>

text \<open>
  The sources hold the tests of the registry (\<open>NewRegistry\<close>, \<open>MakeHandler(reg, ...)\<close>,
  \<open>reg.GetRoutes()\<close>) and its callers, not its implementation; the route list in the
  sources is the package variable above. The registry is therefore modelled from section 4.3
  of the specification. A \<open>*Registry\<close> is a pointer, and what matters is which registry a
  call mutates, so registries live in a store: \<open>routes_of st p\<close> is the route list of the
  registry at address \<open>p\<close>, and \<open>allocated st\<close> is the number of registries created so far,
  whose addresses are \<open>0, ..., allocated st - 1\<close>.
\<close>

record registry_store =
  allocated :: nat
  routes_of :: "nat \<Rightarrow> PendingRoute list"

text \<open>
  Modelled from the spec: \<open>new()\<close> of the Registry, absent from the sources, "empty registry,
  independent of all others". It returns the address of the new registry.
\<close>

definition NewRegistry :: "registry_store \<Rightarrow> nat \<times> registry_store" where
  "NewRegistry st =
     (allocated st,
      st\<lparr>allocated := Suc (allocated st), routes_of := (routes_of st)(allocated st := [])\<rparr>)"

text \<open>
  Modelled from the spec: \<open>register(routeInfo, composedHandler, middlewareNames)\<close> of the
  Registry, absent from the sources, "appends a RouteDefinition".
\<close>

definition Registry_Register ::
  "nat \<Rightarrow> RouteInfo \<Rightarrow> AdaptableHandler \<Rightarrow> string list \<Rightarrow> registry_store \<Rightarrow> registry_store" where
  "Registry_Register reg routeInfo composedHandler middlewareNames st =
     st\<lparr>routes_of := (routes_of st)(reg := routes_of st reg @
            [\<lparr>PendingRoute_Method = RouteInfo_Method routeInfo,
              PendingRoute_Path = RouteInfo_Path routeInfo,
              PendingRoute_Handler = composedHandler,
              PendingRoute_RouteInfo = routeInfo,
              MiddlewareNames = middlewareNames\<rparr>])\<rparr>"

text \<open>
  Modelled from the spec: \<open>getRoutes()\<close> of the Registry, absent from the sources, "returns
  a defensive copy of the current route list".
\<close>

definition Registry_GetRoutes :: "nat \<Rightarrow> registry_store \<Rightarrow> PendingRoute list" where
  "Registry_GetRoutes reg st = routes_of st reg"

text \<open>
  Modelled from the spec: the composition call against a registry (\<open>MakeHandler(reg, ...)\<close>
  in the tests), absent from the sources: "composition and registration are coupled in one
  public operation, which also returns the composed handler". The composition itself is
  the loop of the sources.
\<close>

definition Registry_MakeHandler ::
  "'p \<Rightarrow> 'b \<Rightarrow> nat \<Rightarrow> RouteInfo \<Rightarrow> ('p, 'b, 'r) Handler \<Rightarrow> ('p, 'b, 'r) Middleware list
     \<Rightarrow> registry_store \<Rightarrow> ('p, 'b, 'r) Handler \<times> registry_store" where
  "Registry_MakeHandler zeroP zeroB reg routeInfo baseHandler middleware st =
     (let middlewareNames = map getMiddlewareName middleware;
          handler = apply_from (length middleware) middleware baseHandler
      in (handler,
          Registry_Register reg routeInfo (TypedHandler_Adapt zeroP zeroB handler) middlewareNames st))"

section \<open>db.Connect (package db, unnamed/part_003)\<close>

text \<open>
  \<open>time.Duration\<close> counts nanoseconds. \<open>Connect\<close> talks to database/sql, which is outside
  the repository: the model returns the calls it makes on it, in order, and takes what
  \<open>sql.Open\<close> and \<open>db.Ping\<close> answer from \<open>sql_env\<close>. The result \<open>Inl err\<close> is Go's
  \<open>(nil, err)\<close>, \<open>Inr db\<close> is \<open>(db, nil)\<close>.
\<close>

record Config =
  Host :: string
  Port :: int
  User :: string
  Password :: string
  Database :: string
  SSLMode :: string
  MaxOpenConns :: int
  MaxIdleConns :: int
  MaxLifetime :: int
  MaxIdleTime :: int

datatype sql_call =
    sql_Open string string
  | SetMaxOpenConns int
  | SetMaxIdleConns int
  | SetConnMaxLifetime int
  | SetConnMaxIdleTime int
  | Ping
  | Close

record sql_env =
  Open_error :: "string \<Rightarrow> string \<Rightarrow> error option"
  Ping_error :: "sql_DB \<Rightarrow> error option"

definition time_Minute :: int where
  "time_Minute = 60000000000"

definition Connect :: "sql_env \<Rightarrow> Config \<Rightarrow> sql_call list \<times> (error + sql_DB)" where
  "Connect env config =
     (let dsn = ''host='' @ Host config @ '' port='' @ itoa (Port config)
                @ '' user='' @ User config @ '' password='' @ Password config
                @ '' dbname='' @ Database config @ '' sslmode='' @ SSLMode config;
          config = (if MaxOpenConns config = 0 then config\<lparr>MaxOpenConns := 25\<rparr> else config);
          config = (if MaxIdleConns config = 0 then config\<lparr>MaxIdleConns := 25\<rparr> else config);
          config = (if MaxLifetime config = 0
                    then config\<lparr>MaxLifetime := 5 * time_Minute\<rparr> else config);
          config = (if MaxIdleTime config = 0
                    then config\<lparr>MaxIdleTime := 5 * time_Minute\<rparr> else config)
      in if MaxIdleConns config > MaxOpenConns config
         then ([], Inl (ErrorString (''MaxIdleConns ('' @ itoa (MaxIdleConns config)
                          @ '') cannot exceed MaxOpenConns ('' @ itoa (MaxOpenConns config) @ '')'')))
         else (case Open_error env ''pgx'' dsn of
                 Some err \<Rightarrow>
                   ([sql_Open ''pgx'' dsn],
                    Inl (WrapError (''failed to open database: '' @ Error err) err))
               | None \<Rightarrow>
                   (let db = Pool dsn;
                        calls = [sql_Open ''pgx'' dsn,
                                 SetMaxOpenConns (MaxOpenConns config),
                                 SetMaxIdleConns (MaxIdleConns config),
                                 SetConnMaxLifetime (MaxLifetime config),
                                 SetConnMaxIdleTime (MaxIdleTime config),
                                 Ping]
                    in case Ping_error env db of
                         Some err \<Rightarrow>
                           (calls @ [Close],
                            Inl (WrapError (''failed to ping database: '' @ Error err) err))
                       | None \<Rightarrow> (calls, Inr db))))"

section \<open>db.WithTx (db/query.go)\<close>

text \<open>
  \<open>'s\<close> is the state of the database connection, the open transaction included.
  \<open>db.Begin()\<close>, \<open>tx.Rollback()\<close> and \<open>tx.Commit()\<close> belong to database/sql; each takes
  the state and returns the new one with its error, and the theorems hold for whatever
  they do. The callback \<open>fn\<close> does the same and either returns its pair or panics.
  The deferred function recovers a panic, calls \<open>tx.Rollback()\<close> without looking at its
  error, and panics again with the recovered value. (From Go 1.21 on, which the imports of
  the package need, a recovered value is never nil.)
\<close>

record 's sql_Tx_ops =
  Begin :: "'s \<Rightarrow> 's \<times> error option"
  Rollback :: "'s \<Rightarrow> 's \<times> error option"
  Commit :: "'s \<Rightarrow> 's \<times> error option"

definition WithTx ::
  "'s sql_Tx_ops \<Rightarrow> 't \<Rightarrow> ('s \<Rightarrow> 's \<times> ('t \<times> error option) outcome) \<Rightarrow> 's
     \<Rightarrow> 's \<times> ('t \<times> error option) outcome" where
  "WithTx ops zero fn s =
     (case Begin ops s of
        (s, Some err) \<Rightarrow>
          (s, Returns (zero, Some (WrapError (''failed to begin transaction: '' @ Error err) err)))
      | (s, None) \<Rightarrow>
          (case fn s of
             (s, Panics p) \<Rightarrow> (fst (Rollback ops s), Panics p)
           | (s, Returns (result, Some err)) \<Rightarrow>
               (case Rollback ops s of
                  (s, Some rbErr) \<Rightarrow>
                    (s, Returns (zero, Some (ErrorString (''transaction failed: '' @ Error err
                                               @ '', rollback failed: '' @ Error rbErr))))
                | (s, None) \<Rightarrow> (s, Returns (zero, Some err)))
           | (s, Returns (result, None)) \<Rightarrow>
               (case Commit ops s of
                  (s, Some err) \<Rightarrow>
                    (s, Returns (zero, Some (WrapError (''failed to commit transaction: ''
                                               @ Error err) err)))
                | (s, None) \<Rightarrow> (s, Returns (result, None)))))"

section \<open>Names for what the adapter hands to the handler\<close>

text \<open>
  The context literal of \<open>AdaptHandler\<close> and the world after its first log call, as
  abbreviations: in a statement they stand for the terms of the definition themselves.
\<close>

abbreviation adapter_ctx ::
  "'p \<Rightarrow> 'b \<Rightarrow> sql_DB option \<Rightarrow> slog_Logger \<Rightarrow> Request \<Rightarrow> ('p, 'b) HandlerContext" where
  "adapter_ctx zeroP zeroB db logger r \<equiv>
     \<lparr>Context = Some (Request_Context r), DB = db, Logger = logger,
      Params = Nil_Nullable zeroP, Body = Nil_Nullable zeroB, BodyRaw = Nil_Nullable [],
      Headers = Nil_Nullable [], UserUUID = Nil_Nullable UUID_zero,
      CompanyUUID = Nil_Nullable UUID_zero\<rparr>"

abbreviation adapter_entry :: "sql_DB option \<Rightarrow> slog_Logger \<Rightarrow> Request \<Rightarrow> world \<Rightarrow> world" where
  "adapter_entry db logger r w \<equiv>
     slog_log logger LevelDebug ''AdaptHandler creating context''
       [(''db_nil'', ABool (db = None)), (''path'', AString (URL_Path r))] w"

section \<open>Concrete inputs\<close>

text \<open>
  The request of the tests (\<open>httptest.NewRequest("GET", "/test", nil)\<close>), a fresh response
  recorder with silent loggers, and handlers and middleware in the style of the tests:
  \<open>trace_middleware name\<close> logs \<open>name-pre\<close>, calls the next handler and logs
  \<open>name-post\<close>; \<open>trace_handler name\<close> logs \<open>name\<close> and succeeds; \<open>returning err\<close>
  returns the error \<open>err\<close>; \<open>context_probe\<close> succeeds only if the field \<open>Context\<close> holds the
  context of the request.
\<close>

definition sample_request :: Request where
  "sample_request =
     \<lparr>Request_Method = ''GET'', URL_Path = ''/test'', URL_RawQuery = [],
      RemoteAddr = ''192.0.2.1:1234'', Header_Get = (\<lambda>k. []), Request_ctx = None\<rparr>"

text \<open>The same request with a cancellable context attached (\<open>req.WithContext(ctx)\<close>).\<close>

definition sample_request_with_context :: Request where
  "sample_request_with_context =
     sample_request\<lparr>Request_ctx := Some (WithCancel Background False)\<rparr>"

definition empty_world :: world where
  "empty_world = \<lparr>rw = [], logs = []\<rparr>"

definition sample_route :: RouteInfo where
  "sample_route =
     \<lparr>RouteInfo_Method = ''GET'', RouteInfo_Path = ''/test'', Summary = [],
      Description = [], Tags = []\<rparr>"

definition sample_ctx :: "(unit, unit) HandlerContext" where
  "sample_ctx = adapter_ctx () () None (slog_New 0) sample_request"

definition trace_middleware :: "string \<Rightarrow> (unit, unit, unit) Middleware" where
  "trace_middleware name =
     \<lparr>FuncForPC_Name = Some (''main.'' @ name),
      call = (\<lambda>next ctx w r.
         case next ctx (slog_log (Logger ctx) LevelInfo (name @ ''-pre'') [] w) r of
           (w, out) \<Rightarrow> (slog_log (Logger ctx) LevelInfo (name @ ''-post'') [] w, out))\<rparr>"

definition trace_handler :: "string \<Rightarrow> (unit, unit, unit) Handler" where
  "trace_handler name ctx w r = (slog_log (Logger ctx) LevelInfo name [] w, Returns ((), None))"

definition returning :: "error \<Rightarrow> (unit, unit, unit) Handler" where
  "returning err ctx w r = (w, Returns ((), Some err))"

definition context_probe :: "('p, 'b, unit) Handler" where
  "context_probe ctx w r =
     (if Context ctx = Some (Request_Context r)
      then (slog_log (Logger ctx) LevelInfo ''context is the request context'' [] w,
            Returns ((), None))
      else (w, Returns ((), Some (ErrorString ''context not set''))))"

text \<open>
  A handler that reads the body with \<open>ctx.Body.Value()\<close> although no middleware has parsed
  one: under the adapter alone it panics.
\<close>

definition body_reading_handler :: "(unit, unit, unit) Handler" where
  "body_reading_handler ctx w r =
     (case Value (Body ctx) of
        Panics p \<Rightarrow> (w, Panics p)
      | Returns body \<Rightarrow> (w, Returns ((), None)))"

text \<open>A store with no registry yet.\<close>

definition empty_store :: registry_store where
  "empty_store = \<lparr>allocated = 0, routes_of = (\<lambda>p. [])\<rparr>"

text \<open>
  A database connection that records the statements it is sent. \<open>Begin\<close> and \<open>Commit\<close>
  succeed; \<open>Rollback\<close> answers \<open>rollback_answer\<close>. \<open>ErrTxDone\<close> is the error of
  database/sql for a transaction that is already finished.
\<close>

definition recording_ops :: "error option \<Rightarrow> string list sql_Tx_ops" where
  "recording_ops rollback_answer =
     \<lparr>Begin = (\<lambda>s. (s @ [''BEGIN''], None)),
      Rollback = (\<lambda>s. (s @ [''ROLLBACK''], rollback_answer)),
      Commit = (\<lambda>s. (s @ [''COMMIT''], None))\<rparr>"

definition failing_fn :: "string list \<Rightarrow> string list \<times> (int \<times> error option) outcome" where
  "failing_fn s = (s @ [''INSERT''], Returns (7, Some (ErrorString ''boom'')))"

definition panicking_fn :: "string list \<Rightarrow> string list \<times> (int \<times> error option) outcome" where
  "panicking_fn s = (s @ [''INSERT''], Panics (PanicString ''test panic''))"

definition ErrTxDone :: error where
  "ErrTxDone = ErrorString ''sql: transaction has already been committed or rolled back''"

definition sample_config :: Config where
  "sample_config =
     \<lparr>Host = ''localhost'', Port = 5432, User = ''app'', Password = ''secret'',
      Database = ''app'', SSLMode = ''disable'', MaxOpenConns = 10, MaxIdleConns = 0,
      MaxLifetime = 0, MaxIdleTime = 0\<rparr>"

definition reachable_env :: sql_env where
  "reachable_env = \<lparr>Open_error = (\<lambda>driver dsn. None), Ping_error = (\<lambda>db. None)\<rparr>"

section \<open>Composition order of MakeHandler\<close>

lemma apply_from_foldr:
  "k \<le> length ms \<Longrightarrow> apply_from k ms h = foldr call (take k ms) h"
proof (induction k arbitrary: h)
  case 0
  then show ?case by simp
next
  case (Suc k)
  then have "take (Suc k) ms = take k ms @ [ms ! k]"
    by (simp add: take_Suc_conv_app_nth)
  with Suc show ?case by simp
qed

lemma MakeHandler_composes:
  "fst (MakeHandler zeroP zeroB routeInfo baseHandler middleware globalRoutes)
     = foldr call middleware baseHandler"
  by (simp add: MakeHandler_def Let_def apply_from_foldr)

lemma MakeHandler_registers_one:
  "length (GetCollectedRoutes (snd (MakeHandler zeroP zeroB routeInfo baseHandler middleware globalRoutes)))
     = Suc (length (GetCollectedRoutes globalRoutes))"
  by (simp add: MakeHandler_def GetCollectedRoutes_def Let_def)

text \<open>
  C1. The claim: the last middleware of the list is the outermost wrapper, so that
  \<open>[A, B]\<close> around \<open>H\<close> runs B-pre, A-pre, H, A-post, B-post. The loop of \<open>MakeHandler\<close>
  wraps the base handler with the last middleware first and with the first one last:
  the handler composed from \<open>[A, B]\<close> is \<open>A (B H)\<close>, and on the tracing middleware it runs
  A-pre, B-pre, H, B-post, A-post. The first middleware of the list is the outermost one,
  against the claim and against the comment of the function ("Execution order: last
  middleware -> ... -> first middleware -> baseHandler").
\<close>

theorem C1_first_listed_runs_first:
  "fst (MakeHandler zeroP zeroB routeInfo H [A, B] globalRoutes) = call A (call B H)
   \<and> map log_msg (logs (fst (fst (MakeHandler () () sample_route (trace_handler ''H'')
          [trace_middleware ''A'', trace_middleware ''B''] []) sample_ctx empty_world sample_request)))
       = [''A-pre'', ''B-pre'', ''H'', ''B-post'', ''A-post'']"
  by (simp add: MakeHandler_composes trace_middleware_def trace_handler_def
        slog_log_def empty_world_def sample_ctx_def)

section \<open>Registries\<close>

lemma NewRegistry_allocates:
  "NewRegistry st = (X, st') \<Longrightarrow>
     X = allocated st \<and> X < allocated st' \<and> Registry_GetRoutes X st' = []"
  by (auto simp: NewRegistry_def Registry_GetRoutes_def)

lemma Registry_MakeHandler_allocated:
  "allocated (snd (Registry_MakeHandler zeroP zeroB reg routeInfo h ms st)) = allocated st"
  by (simp add: Registry_MakeHandler_def Registry_Register_def Let_def)

lemma Registry_MakeHandler_appends:
  "length (Registry_GetRoutes reg (snd (Registry_MakeHandler zeroP zeroB reg routeInfo h ms st)))
     = Suc (length (Registry_GetRoutes reg st))"
  by (simp add: Registry_MakeHandler_def Registry_Register_def Registry_GetRoutes_def Let_def)

text \<open>
  C2. Let \<open>Y\<close> be a registry that exists (its address is below \<open>allocated st0\<close>) and let \<open>X\<close>
  be created by a further call of \<open>NewRegistry\<close>. Then \<open>X\<close> and \<open>Y\<close> are different
  registries, and in every later store a composition call against \<open>X\<close> leaves the result of
  \<open>GetRoutes\<close> of \<open>Y\<close> as it was, and a composition call against \<open>Y\<close> leaves that of \<open>X\<close> as
  it was: a route registered in one registry never appears in the other.
\<close>

theorem C2_registries_isolated:
  assumes "NewRegistry st0 = (X, st1)" and "Y < allocated st0"
  shows "X \<noteq> Y
         \<and> Registry_GetRoutes Y (snd (Registry_MakeHandler zeroP zeroB X routeInfo h ms st))
             = Registry_GetRoutes Y st
         \<and> Registry_GetRoutes X (snd (Registry_MakeHandler zeroP zeroB Y routeInfo h ms st))
             = Registry_GetRoutes X st"
  using assms
  by (auto simp: NewRegistry_def Registry_MakeHandler_def Registry_Register_def
        Registry_GetRoutes_def Let_def)

text \<open>
  Two registries created one after the other from the empty store, at addresses 0 and 1:
  after a route is registered in the second, the first has none and the second has it.
\<close>

theorem C2_registries_isolated_witness:
  "Registry_GetRoutes 0
     (snd (Registry_MakeHandler () () 1 sample_route (trace_handler ''H'') []
             (snd (NewRegistry (snd (NewRegistry empty_store)))))) = []
   \<and> map PendingRoute_Path (Registry_GetRoutes 1
     (snd (Registry_MakeHandler () () 1 sample_route (trace_handler ''H'') []
             (snd (NewRegistry (snd (NewRegistry empty_store))))))) = [''/test'']"
  using C2_registries_isolated [where ?st0.0 = "snd (NewRegistry empty_store)" and X = 1
          and ?st1.0 = "snd (NewRegistry (snd (NewRegistry empty_store)))" and Y = 0
          and zeroP = "()" and zeroB = "()" and routeInfo = sample_route
          and h = "trace_handler ''H''" and ms = "[]"
          and st = "snd (NewRegistry (snd (NewRegistry empty_store)))"]
  by (simp add: NewRegistry_def empty_store_def Registry_GetRoutes_def
        Registry_MakeHandler_def Registry_Register_def sample_route_def Let_def)

section \<open>The adapter\<close>

text \<open>
  C3. For every request \<open>r\<close>, the context the adapter builds has its field \<open>Context\<close> set
  to \<open>r.Context()\<close> (the request's own context, or the background context when the request
  carries none), so it is never unset; and the composed handler is invoked on exactly that
  context, after the entry log and before anything else: if the handler, called so, succeeds
  or panics, the adapter ends in the very world the handler left, and if it returns an
  error, the adapter only adds to what the handler wrote and logged. What a handler would do
  on any other context has no influence on the adapter. In particular the probe, which
  succeeds only when it sees the request's context, succeeds for every request, writer state,
  database handle and logger.
\<close>

theorem C3_handler_invoked_with_request_context:
  "Context (adapter_ctx zeroP zeroB db logger r) = Some (Request_Context r)
   \<and> (h (adapter_ctx zeroP zeroB db logger r) (adapter_entry db logger r w) r
          = (w', Returns (res, None))
        \<longrightarrow> AdaptHandler zeroP zeroB db logger h w r = (w', Returns ()))
   \<and> (h (adapter_ctx zeroP zeroB db logger r) (adapter_entry db logger r w) r = (w', Panics p)
        \<longrightarrow> AdaptHandler zeroP zeroB db logger h w r = (w', Panics p))
   \<and> (h (adapter_ctx zeroP zeroB db logger r) (adapter_entry db logger r w) r
          = (w', Returns (res, Some err))
        \<longrightarrow> (\<exists>written logged.
               rw (fst (AdaptHandler zeroP zeroB db logger h w r)) = rw w' @ written
               \<and> logs (fst (AdaptHandler zeroP zeroB db logger h w r)) = logs w' @ logged
               \<and> snd (AdaptHandler zeroP zeroB db logger h w r) = Returns ()))
   \<and> ((\<forall>ctx w1. Context ctx = Some (Request_Context r) \<longrightarrow> h ctx w1 r = h' ctx w1 r)
        \<longrightarrow> AdaptHandler zeroP zeroB db logger h w r = AdaptHandler zeroP zeroB db logger h' w r)
   \<and> logs (fst (AdaptHandler zeroP zeroB db logger context_probe w r))
       = logs w
         @ [\<lparr>log_logger = logger, log_level = LevelDebug,
              log_msg = ''AdaptHandler creating context'',
              log_args = [(''db_nil'', ABool (db = None)), (''path'', AString (URL_Path r))]\<rparr>,
            \<lparr>log_logger = logger, log_level = LevelInfo,
              log_msg = ''context is the request context'', log_args = []\<rparr>]"
proof (intro conjI impI)
  show "Context (adapter_ctx zeroP zeroB db logger r) = Some (Request_Context r)"
    by simp
next
  assume "h (adapter_ctx zeroP zeroB db logger r) (adapter_entry db logger r w) r
            = (w', Returns (res, None))"
  then show "AdaptHandler zeroP zeroB db logger h w r = (w', Returns ())"
    by (simp add: AdaptHandler_def Let_def)
next
  assume "h (adapter_ctx zeroP zeroB db logger r) (adapter_entry db logger r w) r = (w', Panics p)"
  then show "AdaptHandler zeroP zeroB db logger h w r = (w', Panics p)"
    by (simp add: AdaptHandler_def Let_def)
next
  assume call: "h (adapter_ctx zeroP zeroB db logger r) (adapter_entry db logger r w) r
            = (w', Returns (res, Some err))"
  show "\<exists>written logged.
          rw (fst (AdaptHandler zeroP zeroB db logger h w r)) = rw w' @ written
          \<and> logs (fst (AdaptHandler zeroP zeroB db logger h w r)) = logs w' @ logged
          \<and> snd (AdaptHandler zeroP zeroB db logger h w r) = Returns ()"
  proof (cases "errors_Is err Canceled")
    case True
    with call show ?thesis
      by (simp add: AdaptHandler_def Let_def slog_log_def)
  next
    case notc: False
    show ?thesis
    proof (cases "errors_Is err DeadlineExceeded")
      case True
      with call notc show ?thesis
        by (simp add: AdaptHandler_def Let_def slog_log_def WriteAPIError_def JSON_def rw_do_def)
    next
      case False
      with call notc show ?thesis
        by (cases err)
           (simp_all add: AdaptHandler_def Let_def slog_log_def WriteAPIError_def core_Error_def
              JSON_def rw_do_def)
    qed
  qed
next
  assume "\<forall>ctx w1. Context ctx = Some (Request_Context r) \<longrightarrow> h ctx w1 r = h' ctx w1 r"
  then show "AdaptHandler zeroP zeroB db logger h w r = AdaptHandler zeroP zeroB db logger h' w r"
    by (simp add: AdaptHandler_def Let_def)
next
  show "logs (fst (AdaptHandler zeroP zeroB db logger context_probe w r))
       = logs w
         @ [\<lparr>log_logger = logger, log_level = LevelDebug,
              log_msg = ''AdaptHandler creating context'',
              log_args = [(''db_nil'', ABool (db = None)), (''path'', AString (URL_Path r))]\<rparr>,
            \<lparr>log_logger = logger, log_level = LevelInfo,
              log_msg = ''context is the request context'', log_args = []\<rparr>]"
    by (simp add: AdaptHandler_def Let_def context_probe_def slog_log_def)
qed

text \<open>
  On a request that carries a cancellable context: a succeeding handler, a handler that
  panics in \<open>ctx.Body.Value()\<close>, a handler that returns an error, and the probe; and
  the probe on the request without a context, which sees the background context.
\<close>

theorem C3_handler_invoked_with_request_context_witness:
  "Request_Context sample_request_with_context = WithCancel Background False
   \<and> AdaptHandler () () None (slog_New 0)
        (trace_handler ''H'') empty_world sample_request_with_context
       = (slog_log (slog_New 0) LevelInfo ''H'' []
            (adapter_entry None (slog_New 0) sample_request_with_context empty_world),
          Returns ())
   \<and> snd (AdaptHandler () () None (slog_New 0) body_reading_handler empty_world
             sample_request_with_context)
       = Panics (PanicString ''japi-core: attempted to access Nullable value when HasValue is false'')
   \<and> map log_msg (logs (fst (AdaptHandler () () None (slog_New 0)
             (returning (ErrorString ''boom'')) empty_world sample_request_with_context)))
       = [''AdaptHandler creating context'', ''Handler error'', ''API error response'']
   \<and> AdaptHandler () () None (slog_New 0) context_probe empty_world sample_request_with_context
       = AdaptHandler () () None (slog_New 0) (trace_handler ''context is the request context'')
           empty_world sample_request_with_context
   \<and> map log_msg (logs (fst (AdaptHandler () () None (slog_New 0)
             (context_probe :: (unit, unit, unit) Handler) empty_world sample_request)))
       = [''AdaptHandler creating context'', ''context is the request context'']"
  using C3_handler_invoked_with_request_context [where zeroP = "()" and zeroB = "()"
          and db = None and logger = "slog_New 0" and r = sample_request_with_context
          and w = empty_world and h = "trace_handler ''H''"
          and w' = "slog_log (slog_New 0) LevelInfo ''H'' []
                      (adapter_entry None (slog_New 0) sample_request_with_context empty_world)"
          and res = "()"]
        C3_handler_invoked_with_request_context [where zeroP = "()" and zeroB = "()"
          and db = None and logger = "slog_New 0" and r = sample_request_with_context
          and w = empty_world and h = body_reading_handler
          and w' = "adapter_entry None (slog_New 0) sample_request_with_context empty_world"
          and p = "PanicString ''japi-core: attempted to access Nullable value when HasValue is false''"]
        C3_handler_invoked_with_request_context [where zeroP = "()" and zeroB = "()"
          and db = None and logger = "slog_New 0" and r = sample_request_with_context
          and w = empty_world and h = "returning (ErrorString ''boom'')"
          and w' = "adapter_entry None (slog_New 0) sample_request_with_context empty_world"
          and res = "()" and err = "ErrorString ''boom''"]
        C3_handler_invoked_with_request_context [where zeroP = "()" and zeroB = "()"
          and db = None and logger = "slog_New 0" and r = sample_request_with_context
          and w = empty_world and h = context_probe
          and h' = "trace_handler ''context is the request context''"]
        C3_handler_invoked_with_request_context [where zeroP = "()" and zeroB = "()"
          and db = None and logger = "slog_New 0" and r = sample_request and w = empty_world]
  by (simp add: trace_handler_def body_reading_handler_def returning_def context_probe_def
        Value_def Nil_Nullable_def sample_request_with_context_def sample_request_def
        Request_Context_def AdaptHandler_def Let_def slog_log_def empty_world_def
        WriteAPIError_def core_Error_def NewAPIError_def JSON_def rw_do_def)

text \<open>
  C4. If the composed handler, called as the adapter calls it, returns an error that is
  the cancellation error or wraps it (\<open>errors.Is(err, context.Canceled)\<close>), then the
  adapter makes no call on the response writer (the calls recorded are those the handler
  made, so no status and no body come from the adapter), and after the handler has
  returned it logs one record, at level Info, and returns. (The Debug record of
  \<open>adapter_entry\<close> is written on entry, before the handler runs.)
\<close>

theorem C4_cancellation_writes_nothing:
  assumes "handler (adapter_ctx zeroP zeroB db logger r) (adapter_entry db logger r w) r
             = (w', Returns (res, Some err))"
    and "errors_Is err Canceled"
  shows "rw (fst (AdaptHandler zeroP zeroB db logger handler w r)) = rw w'
         \<and> logs (fst (AdaptHandler zeroP zeroB db logger handler w r))
             = logs w' @ [\<lparr>log_logger = logger, log_level = LevelInfo,
                            log_msg = ''Request cancelled by client'',
                            log_args = [(''path'', AString (URL_Path r))]\<rparr>]
         \<and> snd (AdaptHandler zeroP zeroB db logger handler w r) = Returns ()"
  using assms by (simp add: AdaptHandler_def Let_def slog_log_def)

text \<open>
  A handler that returns the cancellation error wrapped by \<open>fmt.Errorf("...: %w", err)\<close>,
  on a fresh recorder: nothing is written, and the log holds the Debug and the Info record.
\<close>

theorem C4_cancellation_writes_nothing_witness:
  "rw (fst (AdaptHandler () () None (slog_New 0)
              (returning (WrapError ''query failed: context canceled'' Canceled))
              empty_world sample_request)) = []
   \<and> map log_level (logs (fst (AdaptHandler () () None (slog_New 0)
              (returning (WrapError ''query failed: context canceled'' Canceled))
              empty_world sample_request))) = [LevelDebug, LevelInfo]"
  using C4_cancellation_writes_nothing [where
          handler = "returning (WrapError ''query failed: context canceled'' Canceled)"
          and zeroP = "()" and zeroB = "()" and db = None and logger = "slog_New 0"
          and r = sample_request and w = empty_world
          and w' = "adapter_entry None (slog_New 0) sample_request empty_world" and res = "()"
          and err = "WrapError ''query failed: context canceled'' Canceled"]
  by (simp add: returning_def slog_log_def empty_world_def)

text \<open>
  C5, as amended. If the composed handler, called as the adapter calls it, returns an
  error that is or wraps the deadline-exceeded error and that is not and does not wrap
  the cancellation error, then the adapter sets the content type, writes the status 504
  and encodes the JSON object \<open>{"error": {"code": 504, "message": "Request timeout"}}\<close>.
\<close>

theorem C5_timeout_writes_504:
  assumes "handler (adapter_ctx zeroP zeroB db logger r) (adapter_entry db logger r w) r
             = (w', Returns (res, Some err))"
    and "errors_Is err DeadlineExceeded"
    and "\<not> errors_Is err Canceled"
  shows "rw (fst (AdaptHandler zeroP zeroB db logger handler w r))
           = rw w' @ [Header_Set ''Content-Type'' ''application/json'',
                      WriteHeader 504,
                      Encode (JObject [(''error'', JObject [(''code'', JNumber 504),
                                          (''message'', JString ''Request timeout'')])])]
         \<and> snd (AdaptHandler zeroP zeroB db logger handler w r) = Returns ()"
  using assms
  by (simp add: AdaptHandler_def Let_def slog_log_def WriteAPIError_def NewAPIError_def
        JSON_def rw_do_def APIError_json_def)

text \<open>The handler of the test, which returns \<open>context.DeadlineExceeded\<close> itself.\<close>

theorem C5_timeout_writes_504_witness:
  "rw (fst (AdaptHandler () () None (slog_New 0) (returning DeadlineExceeded)
              empty_world sample_request))
     = [Header_Set ''Content-Type'' ''application/json'', WriteHeader 504,
        Encode (JObject [(''error'', JObject [(''code'', JNumber 504),
                            (''message'', JString ''Request timeout'')])])]"
  using C5_timeout_writes_504 [where handler = "returning DeadlineExceeded"
          and zeroP = "()" and zeroB = "()" and db = None and logger = "slog_New 0"
          and r = sample_request and w = empty_world
          and w' = "adapter_entry None (slog_New 0) sample_request empty_world" and res = "()"
          and err = DeadlineExceeded]
  by (simp add: returning_def slog_log_def empty_world_def)

text \<open>
  C5 as stated fails: the adapter asks for the cancellation error first. An error that
  wraps both (\<open>fmt.Errorf("%w; %w", context.Canceled, context.DeadlineExceeded)\<close>) has the
  deadline-exceeded error as a cause, and the adapter writes nothing for it.
\<close>

theorem C5_cancellation_first_counterexample:
  "errors_Is (JoinError ''context canceled; context deadline exceeded'' [Canceled, DeadlineExceeded])
     DeadlineExceeded
   \<and> rw (fst (AdaptHandler () () None (slog_New 0)
         (returning (JoinError ''context canceled; context deadline exceeded''
                       [Canceled, DeadlineExceeded]))
         empty_world sample_request)) = []"
  by (simp add: AdaptHandler_def Let_def returning_def slog_log_def empty_world_def)

section \<open>Transactions\<close>

text \<open>
  C7, as amended. Let the transaction have begun. If the callback panics, \<open>WithTx\<close> calls
  \<open>Rollback\<close> on the state the callback left and then panics with the same value; nothing
  else is done to the connection, so \<open>Commit\<close> is not called. If the callback returns an
  error, \<open>WithTx\<close> calls \<open>Rollback\<close>; when the rollback succeeds it returns that error with
  the zero value, and when the rollback fails it returns a new error whose message holds
  both messages.
\<close>

theorem C7_rollback_on_panic_or_error:
  assumes "Begin ops s = (s1, None)"
  shows "(fn s1 = (s2, Panics p) \<longrightarrow>
            WithTx ops zero fn s = (fst (Rollback ops s2), Panics p))
         \<and> (fn s1 = (s2, Returns (res, Some err)) \<longrightarrow>
              (snd (Rollback ops s2) = None \<longrightarrow>
                 WithTx ops zero fn s = (fst (Rollback ops s2), Returns (zero, Some err)))
              \<and> (snd (Rollback ops s2) = Some rbErr \<longrightarrow>
                 WithTx ops zero fn s
                   = (fst (Rollback ops s2),
                      Returns (zero, Some (ErrorString (''transaction failed: '' @ Error err
                                             @ '', rollback failed: '' @ Error rbErr))))))"
  using assms by (auto simp: WithTx_def split: prod.splits option.splits)

text \<open>
  On the recording connection: a panicking callback and a failing callback both end with
  \<open>ROLLBACK\<close> after the callback's statement, the first with the panic value, the
  second with the callback's error; when the rollback fails, with the error that names both.
\<close>

theorem C7_rollback_on_panic_or_error_witness:
  "WithTx (recording_ops None) 0 panicking_fn []
     = ([''BEGIN'', ''INSERT'', ''ROLLBACK''], Panics (PanicString ''test panic''))
   \<and> WithTx (recording_ops None) 0 failing_fn []
     = ([''BEGIN'', ''INSERT'', ''ROLLBACK''], Returns (0, Some (ErrorString ''boom'')))
   \<and> WithTx (recording_ops (Some ErrTxDone)) 0 failing_fn []
     = ([''BEGIN'', ''INSERT'', ''ROLLBACK''],
        Returns (0, Some (ErrorString (''transaction failed: boom, rollback failed: ''
                                        @ Error ErrTxDone))))"
  using C7_rollback_on_panic_or_error [where ops = "recording_ops None" and s = "[]"
          and ?s1.0 = "[''BEGIN'']" and fn = panicking_fn and ?s2.0 = "[''BEGIN'', ''INSERT'']"
          and p = "PanicString ''test panic''" and zero = 0]
        C7_rollback_on_panic_or_error [where ops = "recording_ops None" and s = "[]"
          and ?s1.0 = "[''BEGIN'']" and fn = failing_fn and ?s2.0 = "[''BEGIN'', ''INSERT'']"
          and res = 7 and err = "ErrorString ''boom''" and zero = 0]
        C7_rollback_on_panic_or_error [where ops = "recording_ops (Some ErrTxDone)" and s = "[]"
          and ?s1.0 = "[''BEGIN'']" and fn = failing_fn and ?s2.0 = "[''BEGIN'', ''INSERT'']"
          and res = 7 and err = "ErrorString ''boom''" and rbErr = ErrTxDone and zero = 0]
  by (simp add: recording_ops_def panicking_fn_def failing_fn_def)

text \<open>
  C7 as stated fails where the rollback fails: the callback returns the error \<open>boom\<close>,
  \<open>Rollback\<close> answers \<open>ErrTxDone\<close>, and \<open>WithTx\<close> returns another error, not \<open>boom\<close>.
\<close>

theorem C7_failed_rollback_counterexample:
  "failing_fn [''BEGIN''] = ([''BEGIN'', ''INSERT''], Returns (7, Some (ErrorString ''boom'')))
   \<and> snd (WithTx (recording_ops (Some ErrTxDone)) 0 failing_fn [])
       = Returns (0, Some (ErrorString
           ''transaction failed: boom, rollback failed: sql: transaction has already been committed or rolled back''))
   \<and> snd (WithTx (recording_ops (Some ErrTxDone)) 0 failing_fn [])
       \<noteq> Returns (0, Some (ErrorString ''boom''))"
  by (simp add: WithTx_def recording_ops_def failing_fn_def ErrTxDone_def)

section \<open>Connecting\<close>

text \<open>
  C8. If, once 25 has replaced an unset (zero) \<open>MaxOpenConns\<close> and an unset \<open>MaxIdleConns\<close>,
  the idle limit exceeds the open limit, then \<open>Connect\<close> returns the error
  "MaxIdleConns (i) cannot exceed MaxOpenConns (o)" and has made no call on database/sql:
  not \<open>sql.Open\<close>, not \<open>Ping\<close>.
\<close>

theorem C8_idle_above_open_rejected:
  assumes "(if MaxIdleConns config = 0 then 25 else MaxIdleConns config)
             > (if MaxOpenConns config = 0 then 25 else MaxOpenConns config)"
  shows "Connect env config
           = ([], Inl (ErrorString
                (''MaxIdleConns ('' @ itoa (if MaxIdleConns config = 0 then 25 else MaxIdleConns config)
                 @ '') cannot exceed MaxOpenConns (''
                 @ itoa (if MaxOpenConns config = 0 then 25 else MaxOpenConns config) @ '')'')))"
  using assms by (auto simp: Connect_def Let_def)

text \<open>Open limit 10, idle limit unset: the default 25 exceeds 10.\<close>

theorem C8_idle_above_open_rejected_witness:
  "Connect reachable_env sample_config
     = ([], Inl (ErrorString ''MaxIdleConns (25) cannot exceed MaxOpenConns (10)''))"
  using C8_idle_above_open_rejected [where config = sample_config and env = reachable_env]
  by (simp add: sample_config_def itoa_def nat_digits.simps)

section \<open>Properties of Nullable\<close>

text \<open>
  C9. For every type and every value \<open>v\<close>, fallback \<open>d\<close> and zero value \<open>zero\<close> of it:
  \<open>NewNullable v\<close> has a value and \<open>ValueOrDefault\<close> returns \<open>v\<close>; \<open>Nil\<close> has no value,
  its \<open>ValueOrDefault\<close> is the zero value and its \<open>ValueOr d\<close> is \<open>d\<close>. The accessors are
  plain functions of the Nullable: they return a value, never a panic or an error, and
  touch no state.
\<close>

theorem C9_nullable_accessors:
  "HasValue (NewNullable v) = True
   \<and> ValueOrDefault zero (NewNullable v) = v
   \<and> HasValue (Nil_Nullable zero) = False
   \<and> ValueOrDefault zero (Nil_Nullable zero) = zero
   \<and> ValueOr (Nil_Nullable zero) d = d"
  by (simp add: HasValue_def NewNullable_def Nil_Nullable_def ValueOrDefault_def ValueOr_def)

text \<open>
  C10. \<open>Value()\<close> on \<open>Nil\<close> panics with the fixed message (a Go panic, which a deferred
  \<open>recover\<close> can catch: neither a returned error nor a process exit), and \<open>Value()\<close> on
  \<open>NewNullable v\<close> returns \<open>v\<close> and does not panic.
\<close>

theorem C10_value_panics_when_absent:
  "Value (Nil_Nullable zero)
     = Panics (PanicString ''japi-core: attempted to access Nullable value when HasValue is false'')
   \<and> Value (NewNullable v) = Returns v"
  by (simp add: Value_def NewNullable_def Nil_Nullable_def)

end
